theory Spec2Isabelle
  imports Complex_Main
begin

section \<open>The user administration form of \<open>frontend/src/App.tsx\<close>\<close>

text \<open>
  The component \<open>App\<close> keeps a list of users, a selected user and three form fields, validates
  the submitted form values against \<open>userDataSchema\<close> and talks to a REST backend through
  four thin functions. The model follows the file top to bottom: the JavaScript values the
  component handles, the data types, the schema, the four HTTP functions, and then the
  handlers and effects of the component as functions on its state that return the effects
  they perform (requests, page reloads, console output) in the order they happen.
\<close>

subsection \<open>JavaScript values\<close>

text \<open>
  A JavaScript \<open>number\<close> is a finite value, \<open>NaN\<close> or one of the two infinities. The schema
  only asks whether a number is an integer and whether it is above zero, so finite values
  are modelled by their exact rational value (every finite double is a rational).
\<close>

datatype number = Num rat | NaN | Infinity | NegInfinity

text \<open>\<open>Number.isInteger\<close>: finite and without fractional part.\<close>

fun isInteger :: "number \<Rightarrow> bool" where
  "isInteger (Num r) = (of_int \<lfloor>r\<rfloor> = r)"
| "isInteger NaN = False"
| "isInteger Infinity = False"
| "isInteger NegInfinity = False"

text \<open>The comparison \<open>x <= 0\<close> of JavaScript (false whenever \<open>x\<close> is \<open>NaN\<close>).\<close>

fun le_zero :: "number \<Rightarrow> bool" where
  "le_zero (Num r) = (r \<le> 0)"
| "le_zero NaN = False"
| "le_zero Infinity = False"
| "le_zero NegInfinity = True"

text \<open>
  A \<open>Date\<close> object holds a time value in milliseconds since the epoch, or is an
  \<open>Invalid Date\<close> (its time value is \<open>NaN\<close>).
\<close>

datatype Date = Date int | Invalid_Date

text \<open>\<open>new Date(date)\<close> applied to a \<open>Date\<close>: a copy with the same time value.\<close>

definition new_Date :: "Date \<Rightarrow> Date" where
  "new_Date date = (case date of Date t \<Rightarrow> Date t | Invalid_Date \<Rightarrow> Invalid_Date)"

subsection \<open>Data types (lines 9 to 22)\<close>

text \<open>
  \<open>User\<close> has the fields of \<open>CreateUserData\<close> and an \<open>id\<close>, so it is a record extension and the
  selectors \<open>name\<close>, \<open>empId\<close> and \<open>birthDate\<close> keep the names of the source on both. The field
  \<open>id\<close> is written \<open>id'\<close> (\<open>id\<close> is the identity function of HOL).
\<close>

record CreateUserData =
  name :: string
  empId :: number
  birthDate :: Date

record User = CreateUserData +
  id' :: number

text \<open>
  The component compares user objects by identity (the dependency \<open>[selectedUser]\<close> of an
  effect). A user object is therefore a \<open>User\<close> together with the address of the object;
  equality of two such values is identity of the objects and, the objects never being
  mutated, of their contents.
\<close>

record UserObj = User +
  addr :: nat

text \<open>\<open>UpdateUserData = Partial<CreateUserData>\<close>: every field is optional.\<close>

record UpdateUserData =
  name_opt :: "string option"
  empId_opt :: "number option"
  birthDate_opt :: "Date option"

text \<open>
  A \<open>CreateUserData\<close> (or the value inferred from the schema, which has the same three
  fields) passed where an \<open>UpdateUserData\<close> is expected: all three fields are present.
\<close>

definition asPartial :: "CreateUserData \<Rightarrow> UpdateUserData" where
  "asPartial d = \<lparr> name_opt = Some (name d), empId_opt = Some (empId d),
                   birthDate_opt = Some (birthDate d) \<rparr>"

subsection \<open>The validation schema (lines 24 to 29)\<close>

text \<open>
  The three message literals of the schema are Japanese text; they are named here by the
  check they belong to: \<open>Msg_name_min\<close> is the message of \<open>.min(1, ...)\<close> on the name ("enter at
  least one character"), \<open>Msg_empId_int\<close> the message of \<open>.int(...)\<close> ("enter an integer") and
  \<open>Msg_empId_positive\<close> the message of \<open>.positive(...)\<close> ("enter 1 or more"). A check that
  has no message of its own (the type check of a number, the validity of a date) reports the
  schema library's default message.
\<close>

datatype message = Msg_name_min | Msg_empId_int | Msg_empId_positive | Msg_default

datatype string_check = ZMin nat message

datatype number_check = ZInt message | ZPositive message

record object_schema =
  name_schema :: "string_check list"
  empId_schema :: "number_check list"

text \<open>
  \<open>z.object({ name: z.string().min(1, m1), empId: z.number().int(m2).positive(m3),
  birthDate: z.date() })\<close>. The date schema has no checks, so it has no entry of its own.
\<close>

definition userDataSchema :: object_schema where
  "userDataSchema =
     \<lparr> name_schema = [ZMin 1 Msg_name_min],
       empId_schema = [ZInt Msg_empId_int, ZPositive Msg_empId_positive] \<rparr>"

text \<open>
  Parsing a field returns the messages of its issues, in the order the schema library raises
  them. A string check \<open>min(n)\<close> raises its issue when the length is below \<open>n\<close>.
\<close>

fun string_issue :: "string \<Rightarrow> string_check \<Rightarrow> message list" where
  "string_issue s (ZMin n m) = (if length s < n then [m] else [])"

definition parse_string :: "string_check list \<Rightarrow> string \<Rightarrow> message list" where
  "parse_string checks s = concat (map (string_issue s) checks)"

text \<open>
  A number that is \<open>NaN\<close> fails the type check and no further check runs. Otherwise every
  check runs and every failed check raises its issue: \<open>int\<close> when \<open>Number.isInteger\<close> is
  false, \<open>positive\<close> when the value is \<open><= 0\<close>.
\<close>

fun number_issue :: "number \<Rightarrow> number_check \<Rightarrow> message list" where
  "number_issue x (ZInt m) = (if \<not> isInteger x then [m] else [])"
| "number_issue x (ZPositive m) = (if le_zero x then [m] else [])"

definition parse_number :: "number_check list \<Rightarrow> number \<Rightarrow> message list" where
  "parse_number checks x =
     (if x = NaN then [Msg_default] else concat (map (number_issue x) checks))"

text \<open>\<open>z.date()\<close>: an \<open>Invalid Date\<close> raises an issue.\<close>

definition parse_date :: "Date \<Rightarrow> message list" where
  "parse_date d = (case d of Date t \<Rightarrow> [] | Invalid_Date \<Rightarrow> [Msg_default])"

text \<open>
  The errors the form shows: \<open>errors.name?.message\<close>, \<open>errors.empId?.message\<close> and
  \<open>errors.birthDate?.message\<close>.
\<close>

record FieldErrors =
  name_message :: "message option"
  empId_message :: "message option"
  birthDate_message :: "message option"

definition no_errors :: FieldErrors where
  "no_errors = \<lparr> name_message = None, empId_message = None, birthDate_message = None \<rparr>"

text \<open>The resolver keeps the first issue of each field.\<close>

definition first_message :: "message list \<Rightarrow> message option" where
  "first_message ms = (case ms of [] \<Rightarrow> None | m # rest \<Rightarrow> Some m)"

text \<open>
  \<open>zodResolver(userDataSchema)\<close>: every field is parsed; with no issue at all the result
  is the parsed data, otherwise the errors by field.
\<close>

definition zodResolver :: "object_schema \<Rightarrow> CreateUserData \<Rightarrow> FieldErrors + CreateUserData" where
  "zodResolver schema v =
     (let ns = parse_string (name_schema schema) (name v);
          es = parse_number (empId_schema schema) (empId v);
          bs = parse_date (birthDate v)
      in if ns = [] \<and> es = [] \<and> bs = []
         then Inr \<lparr> name = name v, empId = empId v, birthDate = birthDate v \<rparr>
         else Inl \<lparr> name_message = first_message ns, empId_message = first_message es,
                    birthDate_message = first_message bs \<rparr>)"

subsection \<open>Requests and effects\<close>

text \<open>
  The four requests the client sends to \<open>http://localhost:3000/user\<close>; the requests on one
  user carry its \<open>id\<close>, which the source puts into the URL.
\<close>

datatype request =
    GET_user
  | POST_user CreateUserData
  | DELETE_user number
  | PATCH_user number UpdateUserData

datatype AxiosError = AxiosError string

datatype AxiosResponse = AxiosResponse (data: "UserObj list")

text \<open>A promise as it settles.\<close>

datatype 'a promise = Fulfilled 'a | Rejected AxiosError

text \<open>What a handler does to the world, in order.\<close>

datatype event = Request request | Reload | ConsoleLog AxiosError

text \<open>
  The transport decides how each request settles. A call to \<open>axios\<close> sends the request and
  returns its promise.
\<close>

type_synonym transport = "request \<Rightarrow> AxiosResponse promise"

definition axios :: "transport \<Rightarrow> request \<Rightarrow> AxiosResponse promise \<times> event list" where
  "axios net r = (net r, [Request r])"

text \<open>The requests among the events, in order.\<close>

fun requests :: "event list \<Rightarrow> request list" where
  "requests [] = []"
| "requests (Request r # es) = r # requests es"
| "requests (Reload # es) = requests es"
| "requests (ConsoleLog e # es) = requests es"

text \<open>The number of page reloads among the events.\<close>

definition reloads :: "event list \<Rightarrow> nat" where
  "reloads es = length (filter (\<lambda>e. e = Reload) es)"

subsection \<open>The HTTP functions (lines 38 to 55)\<close>

definition getUsers :: "transport \<Rightarrow> AxiosResponse promise \<times> event list" where
  "getUsers net = axios net GET_user"

definition createUser :: "transport \<Rightarrow> CreateUserData \<Rightarrow> AxiosResponse promise \<times> event list" where
  "createUser net d = (let user = axios net (POST_user d) in user)"

text \<open>
  \<open>deleteUser\<close> and \<open>updateUser\<close> drop the promise of their request and ask for the reload
  in the same breath.
\<close>

definition deleteUser :: "transport \<Rightarrow> number \<Rightarrow> event list" where
  "deleteUser net i = snd (axios net (DELETE_user i)) @ [Reload]"

definition updateUser :: "transport \<Rightarrow> number \<Rightarrow> UpdateUserData \<Rightarrow> event list" where
  "updateUser net i d = snd (axios net (PATCH_user i d)) @ [Reload]"

subsection \<open>The component (lines 57 to 117)\<close>

text \<open>
  The state of \<open>App\<close>: the five \<open>useState\<close> variables and the state of the form library
  (\<open>useForm\<close>): the values it holds for the registered inputs and \<open>formState.errors\<close>. The
  state variables \<open>name\<close>, \<open>empId\<close> and \<open>birthDate\<close> have the shape of a \<open>CreateUserData\<close>, so
  the state extends that record and the selectors keep their names.

  The inputs are registered with the form library and at the same time controlled by the
  state variables: each input is given the attributes \<open>value\<close> and \<open>onChange\<close> after the ones
  \<open>register\<close> returns, so a change of an input goes to the state variable. Among the functions
  of this file only \<open>reset\<close> writes the form values: a handler that writes a state variable
  writes no form value. The library's remaining handlers run on events of the inputs and
  are not part of this file, so a property of a submission is stated for every state,
  whatever form values it holds.
\<close>

record App = CreateUserData +
  users :: "UserObj list"
  selectedUser :: "UserObj option"
  formValues :: CreateUserData
  errors :: FieldErrors

text \<open>
  The first effect (lines 59 to 67) runs once after mounting: the list is fetched, stored
  when the promise is fulfilled, and the error is logged when it is rejected.
\<close>

definition useEffect_mount :: "transport \<Rightarrow> App \<Rightarrow> App \<times> event list" where
  "useEffect_mount net s =
     (case getUsers net of
        (Fulfilled res, evs) \<Rightarrow> (s\<lparr>users := data res\<rparr>, evs)
      | (Rejected error, evs) \<Rightarrow> (s, evs @ [ConsoleLog error]))"

text \<open>The change handler of the name input: \<open>e => setName(e.target.value)\<close>.\<close>

definition setName :: "string \<Rightarrow> App \<Rightarrow> App" where
  "setName v s = s\<lparr>name := v\<rparr>"

text \<open>\<open>clearField\<close> (lines 78 to 83); \<open>now\<close> is the value of \<open>new Date()\<close>.\<close>

definition clearField :: "Date \<Rightarrow> App \<Rightarrow> App" where
  "clearField now s = s\<lparr>name := [], empId := Num 0, birthDate := now, selectedUser := None\<rparr>"

text \<open>
  \<open>onSubmit\<close> (lines 85 to 94). An object is truthy and \<open>null\<close> is falsy; both tests read the
  same \<open>selectedUser\<close>. A reload does not stop the handler, which runs to its end.
\<close>

definition onSubmit :: "transport \<Rightarrow> CreateUserData \<Rightarrow> App \<Rightarrow> event list" where
  "onSubmit net d s =
     (if selectedUser s = None then snd (createUser net d) else [])
     @ (case selectedUser s of
          Some u \<Rightarrow> updateUser net (id' u) (asPartial d)
        | None \<Rightarrow> [])
     @ [Reload]"

text \<open>
  \<open>handleSubmit(onSubmit)\<close> of the form library: the form values are given to the
  resolver; the callback runs with the parsed data when there is no error, otherwise the
  errors are stored in the form state and the callback does not run.
\<close>

definition handleSubmit :: "transport \<Rightarrow> App \<Rightarrow> App \<times> event list" where
  "handleSubmit net s =
     (case zodResolver userDataSchema (formValues s) of
        Inl errs \<Rightarrow> (s\<lparr>errors := errs\<rparr>, [])
      | Inr d \<Rightarrow> (s\<lparr>errors := no_errors\<rparr>, onSubmit net d s))"

text \<open>
  \<open>setSelectedRow\<close> (lines 96 to 99): the user becomes the selected one, and \<open>reset\<close> makes
  its three fields the values of the form library and clears the errors of the form state.
\<close>

definition setSelectedRow :: "UserObj \<Rightarrow> App \<Rightarrow> App" where
  "setSelectedRow user s =
     s\<lparr>selectedUser := Some user,
       formValues := \<lparr> name = name user, empId = empId user, birthDate = birthDate user \<rparr>,
       errors := no_errors\<rparr>"

text \<open>
  The body of the second effect (lines 108 to 117), which reads the \<open>selectedUser\<close> of the
  render it belongs to.
\<close>

definition useEffect_selectedUser :: "Date \<Rightarrow> App \<Rightarrow> App" where
  "useEffect_selectedUser now s =
     (let s1 = (case selectedUser s of
                  Some u \<Rightarrow> s\<lparr>name := name u, empId := empId u,
                              birthDate := new_Date (birthDate u)\<rparr>
                | None \<Rightarrow> s)
      in if selectedUser s = None then clearField now s1 else s1)"

text \<open>
  The effect has the dependency list \<open>[selectedUser]\<close>: after a handler has run and the
  component has rendered again, the effect runs only when \<open>selectedUser\<close> is not the object
  it was at the previous render.
\<close>

definition after_render :: "Date \<Rightarrow> App \<Rightarrow> App \<Rightarrow> App" where
  "after_render now prev s =
     (if selectedUser s \<noteq> selectedUser prev then useEffect_selectedUser now s else s)"

text \<open>
  A click on a table row (line 139) and a click on the button that clears the form
  (line 179), each with the render and the effect that follow. The two dates are the values
  of \<open>new Date()\<close> in the handler and in the effect.
\<close>

definition click_row :: "Date \<Rightarrow> UserObj \<Rightarrow> App \<Rightarrow> App" where
  "click_row now user s = after_render now s (setSelectedRow user s)"

definition click_clear :: "Date \<Rightarrow> Date \<Rightarrow> App \<Rightarrow> App" where
  "click_clear now now' s = after_render now' s (clearField now s)"

text \<open>The delete button (line 176) is only rendered while a user is selected.\<close>

definition click_delete :: "transport \<Rightarrow> App \<Rightarrow> event list" where
  "click_delete net s = (case selectedUser s of Some u \<Rightarrow> deleteUser net (id' u) | None \<Rightarrow> [])"

subsection \<open>Example values\<close>

text \<open>
  A user as the backend returns it, a draft as the form holds it, the state of the component
  in create mode with one row in the table, and a transport on which every request fails.
\<close>

definition example_user :: UserObj where
  "example_user =
     \<lparr> name = ''Yamada'', empId = Num 11111, birthDate = Date 631152000000,
       id' = Num 5, addr = 0 \<rparr>"

definition example_draft :: CreateUserData where
  "example_draft = \<lparr> name = ''Suzuki'', empId = Num 11111, birthDate = Date 631152000000 \<rparr>"

definition create_state :: App where
  "create_state =
     \<lparr> name = [], empId = Num 0, birthDate = Date 0,
       users = [example_user], selectedUser = None,
       formValues = \<lparr> name = [], empId = Num 0, birthDate = Date 0 \<rparr>,
       errors = no_errors \<rparr>"

definition failing_transport :: transport where
  "failing_transport r = Rejected (AxiosError ''Network Error'')"

text \<open>
  The states after the row of the example user was selected and another name was typed into
  the name input, and the state after a row was selected and the form was cleared again.
\<close>

definition renamed_state :: App where
  "renamed_state = setName ''Suzuki'' (click_row (Date 0) example_user create_state)"

definition edited_state :: App where
  "edited_state = setName ''Sato'' (click_row (Date 0) example_user create_state)"

definition cleared_after_selection :: App where
  "cleared_after_selection =
     click_clear (Date 2) (Date 3) (click_row (Date 1) example_user create_state)"

section \<open>Properties\<close>

subsection \<open>What the schema accepts\<close>

lemma parse_string_userDataSchema:
  "parse_string (name_schema userDataSchema) s = (if s = [] then [Msg_name_min] else [])"
  by (cases s) (simp_all add: parse_string_def userDataSchema_def)

lemma parse_number_userDataSchema:
  "parse_number (empId_schema userDataSchema) x =
     (if x = NaN then [Msg_default]
      else (if \<not> isInteger x then [Msg_empId_int] else [])
         @ (if le_zero x then [Msg_empId_positive] else []))"
  by (simp add: parse_number_def userDataSchema_def)

text \<open>
  A number that is not a positive integer is \<open>NaN\<close>, or fails \<open>Number.isInteger\<close>, or is at
  most zero.
\<close>

lemma isInteger_le_zero_cases:
  assumes "\<not> (\<exists>n::int. 0 < n \<and> x = Num (of_int n))" and "x \<noteq> NaN"
  shows "\<not> isInteger x \<or> le_zero x"
proof (cases x)
  case (Num r)
  show ?thesis
  proof (rule ccontr)
    assume "\<not> (\<not> isInteger x \<or> le_zero x)"
    with Num have "isInteger (Num r)" and p: "0 < r"
      by simp_all
    then obtain n :: int where n: "r = of_int n"
      by auto
    from n p have "0 < n" by simp
    moreover from n Num have "x = Num (of_int n)" by simp
    ultimately show False using assms(1) by blast
  qed
qed (use assms in simp_all)

lemma zodResolver_valid:
  assumes "name v \<noteq> []" "empId v = Num (of_int n)" "0 < n" "birthDate v = Date t"
  shows "zodResolver userDataSchema v
           = Inr \<lparr> name = name v, empId = empId v, birthDate = birthDate v \<rparr>"
  using assms
  by (simp add: zodResolver_def parse_string_userDataSchema parse_number_userDataSchema
      parse_date_def)

lemma first_message_parse_number:
  assumes "\<not> (\<exists>n::int. 0 < n \<and> x = Num (of_int n))"
  shows "first_message (parse_number (empId_schema userDataSchema) x) =
           Some (if x = NaN then Msg_default
                 else if \<not> isInteger x then Msg_empId_int else Msg_empId_positive)"
  using isInteger_le_zero_cases [OF assms]
  by (auto simp: parse_number_userDataSchema first_message_def)

text \<open>The number \<open>3 / 2\<close> is not an integer.\<close>

lemma three_halves_not_int: "(3 / 2 :: rat) \<noteq> of_int n"
proof
  assume "(3 / 2 :: rat) = of_int n"
  then have "(of_int (2 * n) :: rat) = of_int 3"
    by simp
  then have "2 * n = 3"
    by (simp only: of_int_eq_iff)
  then show False
    by presburger
qed

lemma not_isInteger_example: "\<not> isInteger (Num (3 / 2))"
  using three_halves_not_int by simp

subsection \<open>The requests of the submit callback\<close>

lemma requests_onSubmit_selected:
  assumes "selectedUser s = Some u"
  shows "requests (onSubmit net d s) = [PATCH_user (id' u) (asPartial d)]"
  using assms by (simp add: onSubmit_def updateUser_def axios_def)

lemma requests_onSubmit_unselected:
  assumes "selectedUser s = None"
  shows "requests (onSubmit net d s) = [POST_user d]"
  using assms by (simp add: onSubmit_def createUser_def axios_def)

subsection \<open>Submission of valid form values\<close>

text \<open>
  C1. For all form values whose name is not empty, whose employee ID is a positive integer
  and whose birth date is a valid date, submitting the form sends exactly one request: the
  creation of the draft when no user is selected, the update of the selected user when one
  is selected. No other request is sent.
\<close>

theorem submit_valid_one_mutation:
  assumes "name (formValues s) \<noteq> []"
    and "empId (formValues s) = Num (of_int n)" and "0 < n"
    and "birthDate (formValues s) = Date t"
  shows "requests (snd (handleSubmit net s)) =
           (case selectedUser s of
              None \<Rightarrow> [POST_user (formValues s)]
            | Some u \<Rightarrow> [PATCH_user (id' u) (asPartial (formValues s))])
         \<and> length (requests (snd (handleSubmit net s))) = 1"
  using zodResolver_valid [OF assms]
  by (simp add: handleSubmit_def onSubmit_def createUser_def updateUser_def axios_def
      asPartial_def split: option.splits)

theorem submit_valid_one_mutation_witness:
  "name (formValues (create_state\<lparr>formValues := example_draft\<rparr>)) \<noteq> []
   \<and> empId (formValues (create_state\<lparr>formValues := example_draft\<rparr>)) = Num (of_int 11111)
   \<and> (0::int) < 11111
   \<and> birthDate (formValues (create_state\<lparr>formValues := example_draft\<rparr>)) = Date 631152000000
   \<and> requests (snd (handleSubmit failing_transport (create_state\<lparr>formValues := example_draft\<rparr>)))
       = [POST_user example_draft]
   \<and> requests (snd (handleSubmit failing_transport
         (create_state\<lparr>formValues := example_draft, selectedUser := Some example_user\<rparr>)))
       = [PATCH_user (Num 5) (asPartial example_draft)]"
  using submit_valid_one_mutation
      [of "create_state\<lparr>formValues := example_draft\<rparr>" 11111 631152000000 failing_transport]
    submit_valid_one_mutation
      [of "create_state\<lparr>formValues := example_draft, selectedUser := Some example_user\<rparr>"
          11111 631152000000 failing_transport]
  by (simp add: create_state_def example_draft_def example_user_def)

text \<open>The values of the example row pass the schema.\<close>

lemma example_user_values_valid:
  "zodResolver userDataSchema
      \<lparr> name = ''Yamada'', empId = Num 11111, birthDate = Date 631152000000 \<rparr>
    = Inr \<lparr> name = ''Yamada'', empId = Num 11111, birthDate = Date 631152000000 \<rparr>"
  using zodResolver_valid
    [of "\<lparr> name = ''Yamada'', empId = Num 11111, birthDate = Date 631152000000 \<rparr>"
        11111 631152000000]
  by simp

text \<open>
  The change handler of the name input writes the state variable and no form value, so it
  changes nothing in what a submission sends.
\<close>

lemma handleSubmit_setName:
  "snd (handleSubmit net (setName v s)) = snd (handleSubmit net s)"
  by (cases s) (simp add: handleSubmit_def setName_def onSubmit_def split: sum.splits)

text \<open>
  C2. The claim is that a submission with a selected user sends one update request,
  addressed to the \<open>id\<close> of that user, whose body holds the changed fields of the draft. The
  request and its address are as claimed, the body is not: the change handler of an input
  replaces the one \<open>register\<close> returns and writes the state variable only, and the submission
  sends the values of the form library. After the row of the user with \<open>id\<close> 5 was selected,
  the name was changed and the form was submitted with no other event on the input, the one
  request is the update of user 5, and its body holds the name of the row, not the changed
  name.
\<close>

theorem changed_name_not_sent:
  "selectedUser renamed_state = Some example_user
   \<and> id' example_user = Num 5
   \<and> name renamed_state = ''Suzuki''
   \<and> formValues renamed_state
       = \<lparr> name = ''Yamada'', empId = Num 11111, birthDate = Date 631152000000 \<rparr>
   \<and> snd (handleSubmit failing_transport renamed_state)
       = [Request (PATCH_user (Num 5)
            \<lparr> name_opt = Some ''Yamada'', empId_opt = Some (Num 11111),
              birthDate_opt = Some (Date 631152000000) \<rparr>),
          Reload, Reload]"
proof -
  have s: "renamed_state =
      create_state\<lparr>name := ''Suzuki'', empId := Num 11111, birthDate := Date 631152000000,
        selectedUser := Some example_user,
        formValues := \<lparr> name = ''Yamada'', empId = Num 11111, birthDate = Date 631152000000 \<rparr>,
        errors := no_errors\<rparr>"
    by (simp add: renamed_state_def setName_def click_row_def after_render_def
        setSelectedRow_def useEffect_selectedUser_def new_Date_def create_state_def
        example_user_def)
  show ?thesis
    unfolding s
    by (simp add: handleSubmit_def example_user_values_valid onSubmit_def updateUser_def
        axios_def asPartial_def create_state_def example_user_def)
qed

subsection \<open>Rejected submissions\<close>

text \<open>
  C3. For all form values whose name is the empty string, submitting the form sends no
  request and performs no other effect, and the error of the name field is the message of
  the minimum-length check.
\<close>

theorem empty_name_rejected:
  assumes "name (formValues s) = []"
  shows "snd (handleSubmit net s) = []
         \<and> name_message (errors (fst (handleSubmit net s))) = Some Msg_name_min"
  using assms
  by (simp add: handleSubmit_def zodResolver_def parse_string_userDataSchema first_message_def)

theorem empty_name_rejected_witness:
  "name (formValues (create_state\<lparr>formValues := example_draft\<lparr>name := []\<rparr>\<rparr>)) = []
   \<and> handleSubmit failing_transport (create_state\<lparr>formValues := example_draft\<lparr>name := []\<rparr>\<rparr>)
       = (create_state\<lparr>formValues := example_draft\<lparr>name := []\<rparr>,
            errors := \<lparr> name_message = Some Msg_name_min, empId_message = None,
                        birthDate_message = None \<rparr>\<rparr>, [])"
  using empty_name_rejected
      [of "create_state\<lparr>formValues := example_draft\<lparr>name := []\<rparr>\<rparr>" failing_transport]
  by (simp add: handleSubmit_def zodResolver_def parse_string_userDataSchema
      parse_number_userDataSchema parse_date_def first_message_def create_state_def
      example_draft_def)

text \<open>
  C4. For all form values whose employee ID is not a positive integer (zero, negative, with
  a fractional part, infinite or \<open>NaN\<close>), submitting the form sends no request and performs
  no other effect, and the employee ID field has an error message: the default message for
  \<open>NaN\<close>, otherwise the message of the integer check when the value is not an integer, and
  the message of the positivity check when it is an integer.
\<close>

theorem invalid_empId_rejected:
  assumes "\<not> (\<exists>n::int. 0 < n \<and> empId (formValues s) = Num (of_int n))"
  shows "snd (handleSubmit net s) = []
         \<and> empId_message (errors (fst (handleSubmit net s))) =
             Some (if empId (formValues s) = NaN then Msg_default
                   else if \<not> isInteger (empId (formValues s)) then Msg_empId_int
                   else Msg_empId_positive)"
proof -
  let ?es = "parse_number (empId_schema userDataSchema) (empId (formValues s))"
  from first_message_parse_number [OF assms]
  have m: "first_message ?es =
             Some (if empId (formValues s) = NaN then Msg_default
                   else if \<not> isInteger (empId (formValues s)) then Msg_empId_int
                   else Msg_empId_positive)" .
  then have ne: "?es \<noteq> []"
    by (auto simp: first_message_def)
  from ne have r: "zodResolver userDataSchema (formValues s) =
      Inl \<lparr> name_message = first_message (parse_string (name_schema userDataSchema) (name (formValues s))),
            empId_message = first_message ?es,
            birthDate_message = first_message (parse_date (birthDate (formValues s))) \<rparr>"
    by (simp add: zodResolver_def Let_def)
  show ?thesis
    by (simp add: handleSubmit_def r m)
qed

theorem invalid_empId_rejected_witness:
  "\<not> (\<exists>n::int. 0 < n
        \<and> empId (formValues (create_state\<lparr>formValues := example_draft\<lparr>empId := Num (3 / 2)\<rparr>\<rparr>))
            = Num (of_int n))
   \<and> snd (handleSubmit failing_transport
         (create_state\<lparr>formValues := example_draft\<lparr>empId := Num (3 / 2)\<rparr>\<rparr>)) = []
   \<and> empId_message (errors (fst (handleSubmit failing_transport
         (create_state\<lparr>formValues := example_draft\<lparr>empId := Num (3 / 2)\<rparr>\<rparr>))))
       = Some Msg_empId_int"
proof -
  have h: "\<not> (\<exists>n::int. 0 < n
        \<and> empId (formValues (create_state\<lparr>formValues := example_draft\<lparr>empId := Num (3 / 2)\<rparr>\<rparr>))
            = Num (of_int n))"
    using three_halves_not_int by simp
  show ?thesis
    using h invalid_empId_rejected [OF h, of failing_transport] not_isInteger_example
    by (simp del: isInteger.simps)
qed

subsection \<open>The list fetch\<close>

text \<open>
  C7. When the request of the initial list fetch is rejected by the transport, the effect
  leaves the whole state, and so the list of users, as it was, and its only effects are the
  one request and the console output of the error: no second request, and nothing is
  written to the errors the form shows.
\<close>

theorem list_fetch_failure_only_logged:
  assumes "net GET_user = Rejected e"
  shows "useEffect_mount net s = (s, [Request GET_user, ConsoleLog e])"
  using assms
  by (simp add: useEffect_mount_def getUsers_def axios_def)

theorem list_fetch_failure_only_logged_witness:
  "failing_transport GET_user = Rejected (AxiosError ''Network Error'')
   \<and> users (fst (useEffect_mount failing_transport create_state)) = [example_user]
   \<and> fst (useEffect_mount failing_transport create_state) = create_state
   \<and> snd (useEffect_mount failing_transport create_state)
       = [Request GET_user, ConsoleLog (AxiosError ''Network Error'')]"
  using list_fetch_failure_only_logged
      [of failing_transport "AxiosError ''Network Error''" create_state]
  by (simp add: failing_transport_def create_state_def)

subsection \<open>Reloads\<close>

text \<open>
  C8. Whatever the transport does with the request (the statement holds for every
  \<open>net\<close>, so for a request that is fulfilled as for one that is rejected), a delete, an
  update and a submission of either kind send their request and then reload the page: the
  request is the first effect and a reload follows it directly.
\<close>

theorem reload_follows_every_mutation:
  "deleteUser net i = [Request (DELETE_user i), Reload]
   \<and> updateUser net i p = [Request (PATCH_user i p), Reload]
   \<and> onSubmit net d s =
       (case selectedUser s of
          None \<Rightarrow> [Request (POST_user d), Reload]
        | Some u \<Rightarrow> [Request (PATCH_user (id' u) (asPartial d)), Reload, Reload])
   \<and> click_delete net s =
       (case selectedUser s of
          None \<Rightarrow> []
        | Some u \<Rightarrow> [Request (DELETE_user (id' u)), Reload])"
  by (simp add: deleteUser_def updateUser_def onSubmit_def createUser_def click_delete_def
      axios_def split: option.splits)

text \<open>
  C9. A submission with a selected user asks for the reload twice, once in \<open>updateUser\<close> and
  once at the end of \<open>onSubmit\<close>; a submission without a selected user and a delete ask for it
  once.
\<close>

theorem reload_counts:
  "reloads (onSubmit net d s) = (case selectedUser s of None \<Rightarrow> 1 | Some u \<Rightarrow> 2)
   \<and> reloads (updateUser net i p) = 1
   \<and> reloads (deleteUser net i) = 1"
  by (simp add: reloads_def deleteUser_def updateUser_def onSubmit_def createUser_def
      axios_def split: option.splits)


subsection \<open>Selecting a row\<close>

lemma new_Date_same: "new_Date d = d"
  by (cases d) (simp_all add: new_Date_def)

text \<open>
  A click on a row selects the user of the row and resets the values of the form library to
  the values of the row. The state variables are written by the effect, which runs when the
  selected user has changed.
\<close>

lemma click_row_effect:
  "selectedUser (click_row now user s) = Some user
   \<and> requests (onSubmit net d (click_row now user s)) = [PATCH_user (id' user) (asPartial d)]
   \<and> formValues (click_row now user s)
       = \<lparr> name = name user, empId = empId user, birthDate = birthDate user \<rparr>
   \<and> (selectedUser s \<noteq> Some user \<longrightarrow>
        name (click_row now user s) = name user
        \<and> empId (click_row now user s) = empId user
        \<and> birthDate (click_row now user s) = birthDate user)"
proof -
  have sel: "selectedUser (click_row now user s) = Some user"
    by (simp add: click_row_def after_render_def setSelectedRow_def useEffect_selectedUser_def)
  have "formValues (click_row now user s)
          = \<lparr> name = name user, empId = empId user, birthDate = birthDate user \<rparr>"
    by (cases s)
      (simp add: click_row_def after_render_def setSelectedRow_def useEffect_selectedUser_def)
  moreover have "selectedUser s \<noteq> Some user \<longrightarrow>
        name (click_row now user s) = name user
        \<and> empId (click_row now user s) = empId user
        \<and> birthDate (click_row now user s) = birthDate user"
    by (simp add: click_row_def after_render_def setSelectedRow_def useEffect_selectedUser_def
        new_Date_same)
  ultimately show ?thesis
    using sel requests_onSubmit_selected [OF sel] by simp
qed

text \<open>
  C5. The claim is that a click on a row puts exactly the values of the row into the form
  fields and makes its user the selected one. \<open>setSelectedRow\<close> calls \<open>reset\<close> with the values of
  the row on every click, but the state variables are written by the effect only, and the
  effect has the dependency \<open>[selectedUser]\<close>. Where the row that is clicked is the one
  already selected and its name was edited, the user stays selected and the values of the
  form library are those of the row, but the field \<open>name\<close> keeps the edited name: the two
  copies of the form differ, and a submission sends the name of the row.
\<close>

theorem reselect_keeps_edited_name:
  "example_user \<in> set (users edited_state)
   \<and> selectedUser edited_state = Some example_user
   \<and> selectedUser (click_row (Date 1) example_user edited_state) = Some example_user
   \<and> name (click_row (Date 1) example_user edited_state) = ''Sato''
   \<and> name (click_row (Date 1) example_user edited_state) \<noteq> name example_user
   \<and> formValues (click_row (Date 1) example_user edited_state)
       = \<lparr> name = ''Yamada'', empId = Num 11111, birthDate = Date 631152000000 \<rparr>
   \<and> requests (snd (handleSubmit failing_transport
         (click_row (Date 1) example_user edited_state)))
       = [PATCH_user (Num 5)
            \<lparr> name_opt = Some ''Yamada'', empId_opt = Some (Num 11111),
              birthDate_opt = Some (Date 631152000000) \<rparr>]"
proof -
  have s: "click_row (Date 1) example_user edited_state =
      create_state\<lparr>name := ''Sato'', empId := Num 11111, birthDate := Date 631152000000,
        selectedUser := Some example_user,
        formValues := \<lparr> name = ''Yamada'', empId = Num 11111, birthDate = Date 631152000000 \<rparr>,
        errors := no_errors\<rparr>"
    by (simp add: edited_state_def setName_def click_row_def after_render_def
        setSelectedRow_def useEffect_selectedUser_def new_Date_def create_state_def
        example_user_def)
  have e: "example_user \<in> set (users edited_state) \<and> selectedUser edited_state = Some example_user"
    by (simp add: edited_state_def setName_def click_row_def after_render_def
        setSelectedRow_def useEffect_selectedUser_def create_state_def)
  show ?thesis
    unfolding s using e
    by (simp add: handleSubmit_def example_user_values_valid onSubmit_def updateUser_def
        axios_def asPartial_def create_state_def example_user_def)
qed

subsection \<open>Clearing the form\<close>

text \<open>
  From every state, \<open>clearField\<close> sets the three state variables to their initial values (the
  empty name, the employee ID 0 and the current date) and the selected user to \<open>null\<close>; so
  does a click on the button that calls it, together with the effect that follows. The
  effect runs when a user was selected, and then the birth date is the date read by the
  effect.
\<close>

lemma clear_resets_fields:
  "name (clearField now s) = [] \<and> empId (clearField now s) = Num 0
   \<and> birthDate (clearField now s) = now \<and> selectedUser (clearField now s) = None
   \<and> name (click_clear now now' s) = [] \<and> empId (click_clear now now' s) = Num 0
   \<and> birthDate (click_clear now now' s) = (if selectedUser s = None then now else now')
   \<and> selectedUser (click_clear now now' s) = None
   \<and> requests (onSubmit net d (click_clear now now' s)) = [POST_user d]"
proof -
  have sel: "selectedUser (click_clear now now' s) = None"
    by (simp add: click_clear_def after_render_def clearField_def useEffect_selectedUser_def)
  show ?thesis
    using sel requests_onSubmit_unselected [OF sel]
    by (simp add: click_clear_def after_render_def clearField_def useEffect_selectedUser_def)
qed

text \<open>\<open>clearField\<close> does not call \<open>reset\<close>: the values of the form library stay as they were.\<close>

lemma formValues_click_clear: "formValues (click_clear now now' s) = formValues s"
  by (cases s)
    (simp add: click_clear_def after_render_def clearField_def useEffect_selectedUser_def)

text \<open>
  C6. The claim is that clearing resets every field of the form to its empty or default
  value, clears the selected user and returns the form to create mode. The state variables
  and the selected user are reset, and a submission that is accepted then creates a user.
  The values of the form library, which are what a submission validates and sends, are not
  reset: from every state they are after the clearing what they were before it, and the
  submission sends them if they pass the schema. After a row was selected and the form was
  cleared, they are still the values of the row.
\<close>

theorem clear_keeps_form_values:
  "name (click_clear now now' s) = []
   \<and> empId (click_clear now now' s) = Num 0
   \<and> selectedUser (click_clear now now' s) = None
   \<and> formValues (clearField now s) = formValues s
   \<and> formValues (click_clear now now' s) = formValues s
   \<and> snd (handleSubmit net (click_clear now now' s))
       = (case zodResolver userDataSchema (formValues s) of
            Inl errs \<Rightarrow> []
          | Inr d \<Rightarrow> [Request (POST_user d), Reload])
   \<and> formValues cleared_after_selection
       = \<lparr> name = ''Yamada'', empId = Num 11111, birthDate = Date 631152000000 \<rparr>"
proof -
  have sel: "selectedUser (click_clear now now' s) = None"
    by (simp add: click_clear_def after_render_def clearField_def useEffect_selectedUser_def)
  have fv: "formValues (click_clear now now' s) = formValues s"
    by (rule formValues_click_clear)
  have fc: "formValues (clearField now s) = formValues s"
    by (cases s) (simp add: clearField_def)
  have sub: "snd (handleSubmit net (click_clear now now' s))
       = (case zodResolver userDataSchema (formValues s) of
            Inl errs \<Rightarrow> []
          | Inr d \<Rightarrow> [Request (POST_user d), Reload])"
    by (simp add: handleSubmit_def fv onSubmit_def sel createUser_def axios_def
        split: sum.splits)
  have ex: "formValues cleared_after_selection
       = \<lparr> name = ''Yamada'', empId = Num 11111, birthDate = Date 631152000000 \<rparr>"
    by (simp add: cleared_after_selection_def formValues_click_clear click_row_def after_render_def
        setSelectedRow_def useEffect_selectedUser_def create_state_def example_user_def)
  show ?thesis
    using sel fv fc sub ex
    by (simp add: click_clear_def after_render_def clearField_def useEffect_selectedUser_def)
qed

text \<open>
  The fields of a cleared form do not pass the schema, and form values with the employee
  ID 0 are rejected without a request.
\<close>

lemma cleared_fields_invalid:
  "empId (clearField now s) = Num 0
   \<and> zodResolver userDataSchema
         \<lparr> name = name (clearField now s), empId = empId (clearField now s),
           birthDate = birthDate (clearField now s) \<rparr>
       = Inl \<lparr> name_message = Some Msg_name_min, empId_message = Some Msg_empId_positive,
               birthDate_message = first_message (parse_date now) \<rparr>"
  by (simp add: clearField_def zodResolver_def parse_string_userDataSchema
      parse_number_userDataSchema first_message_def)

lemma zero_empId_rejected:
  assumes "empId (formValues t) = Num 0"
  shows "snd (handleSubmit net t) = []
         \<and> empId_message (errors (fst (handleSubmit net t))) = Some Msg_empId_positive"
  using assms
  by (simp add: handleSubmit_def zodResolver_def parse_number_userDataSchema first_message_def)

text \<open>
  C10. The claim is that a form that has just been cleared, submitted with its employee ID
  left as it is, is rejected and sends no request. \<open>clearField\<close> writes the state variables
  only; it does not call \<open>reset\<close>, as \<open>setSelectedRow\<close> does, and between the click that clears
  the form and the submission no input is touched. After a row was selected and the form
  was cleared, the fields hold the empty name and the employee ID 0, the values of the form
  library are still those of the row, the resolver accepts them, and the submission creates
  a user with them.
\<close>

theorem cleared_form_submits_row_values:
  "name cleared_after_selection = []
   \<and> empId cleared_after_selection = Num 0
   \<and> selectedUser cleared_after_selection = None
   \<and> formValues cleared_after_selection
       = \<lparr> name = ''Yamada'', empId = Num 11111, birthDate = Date 631152000000 \<rparr>
   \<and> snd (handleSubmit failing_transport cleared_after_selection)
       = [Request (POST_user
            \<lparr> name = ''Yamada'', empId = Num 11111, birthDate = Date 631152000000 \<rparr>),
          Reload]"
proof -
  have s: "cleared_after_selection =
      create_state\<lparr>name := [], empId := Num 0, birthDate := Date 3, selectedUser := None,
        formValues := \<lparr> name = ''Yamada'', empId = Num 11111, birthDate = Date 631152000000 \<rparr>,
        errors := no_errors\<rparr>"
    by (simp add: cleared_after_selection_def click_clear_def click_row_def after_render_def
        setSelectedRow_def useEffect_selectedUser_def clearField_def new_Date_def
        create_state_def example_user_def)
  have v: "zodResolver userDataSchema
      \<lparr> name = ''Yamada'', empId = Num 11111, birthDate = Date 631152000000 \<rparr>
    = Inr \<lparr> name = ''Yamada'', empId = Num 11111, birthDate = Date 631152000000 \<rparr>"
    using zodResolver_valid
      [of "\<lparr> name = ''Yamada'', empId = Num 11111, birthDate = Date 631152000000 \<rparr>"
          11111 631152000000]
    by simp
  show ?thesis
    unfolding s
    by (simp add: handleSubmit_def v onSubmit_def createUser_def axios_def create_state_def)
qed


end
